theory Spec2Isabelle
  imports Complex_Main
begin

section \<open>JSON values and the JavaScript operations the page applies to them\<close>

text \<open>
  The intake page (\<^verbatim>\<open>frontend/app.js\<close>, and the same script inlined in a page,
  \<^verbatim>\<open>unnamed/part_000\<close>) works on the value \<^verbatim>\<open>response.json()\<close> yields. That
  value is any JSON value. An object is its list of own properties (a parsed object holds a
  key once). A number carries its value; the page only tests numbers for truthiness and
  interpolates them into text.
\<close>

datatype json =
    JNull
  | JBool bool
  | JNum rat
  | JStr string
  | JArr "json list"
  | JObj "(string \<times> json) list"

text \<open>
  Exceptions. The engine's own errors carry a message whose wording is the engine's;
  it is kept symbolic (\<open>EngineMsg\<close>). \<open>ProgressEvent\<close> is the event a failing
  \<^verbatim>\<open>FileReader\<close> hands to \<^verbatim>\<open>reject\<close>: it has no \<^verbatim>\<open>message\<close> property.
  \<open>Error m\<close> is \<^verbatim>\<open>new Error(m)\<close>.

  Text the page builds is a list of pieces: literal characters, the decimal text of a
  number, the text of \<^verbatim>\<open>Math.round(x * 100)\<close>, or an engine message.
\<close>

datatype engine_error = TypeError | SyntaxError | NetworkError

datatype piece =
    Lit string
  | NumText rat
  | RoundPct "json option"
  | EngineMsg engine_error

datatype exn = Engine engine_error | ProgressEvent | Error "piece list"

text \<open>JavaScript truthiness; \<open>None\<close> is \<^verbatim>\<open>undefined\<close>.\<close>

fun truthy :: "json \<Rightarrow> bool" where
  "truthy JNull = False"
| "truthy (JBool b) = b"
| "truthy (JNum q) = (q \<noteq> 0)"
| "truthy (JStr s) = (s \<noteq> [])"
| "truthy (JArr xs) = True"
| "truthy (JObj kvs) = True"

definition truthy_opt :: "json option \<Rightarrow> bool" where
  "truthy_opt v = (case v of None \<Rightarrow> False | Some j \<Rightarrow> truthy j)"

text \<open>
  Property read \<^verbatim>\<open>v.k\<close> for the data keys the page reads (none of them is a name of
  a built-in prototype): reading from \<^verbatim>\<open>null\<close> or \<^verbatim>\<open>undefined\<close> throws a
  TypeError, an object yields its own property, every other value yields
  \<^verbatim>\<open>undefined\<close>.
\<close>

definition get_prop :: "json \<Rightarrow> string \<Rightarrow> exn + json option" where
  "get_prop v k =
     (case v of
        JNull \<Rightarrow> Inl (Engine TypeError)
      | JObj kvs \<Rightarrow> Inr (map_of kvs k)
      | _ \<Rightarrow> Inr None)"

definition get_prop_opt :: "json option \<Rightarrow> string \<Rightarrow> exn + json option" where
  "get_prop_opt v k = (case v of None \<Rightarrow> Inl (Engine TypeError) | Some j \<Rightarrow> get_prop j k)"

text \<open>\<^verbatim>\<open>v.length\<close>: strings and arrays have one, an object may own a key of that name.\<close>

definition length_prop :: "json option \<Rightarrow> exn + json option" where
  "length_prop v =
     (case v of
        None \<Rightarrow> Inl (Engine TypeError)
      | Some JNull \<Rightarrow> Inl (Engine TypeError)
      | Some (JStr s) \<Rightarrow> Inr (Some (JNum (of_nat (length s))))
      | Some (JArr xs) \<Rightarrow> Inr (Some (JNum (of_nat (length xs))))
      | Some (JObj kvs) \<Rightarrow> Inr (map_of kvs ''length'')
      | Some _ \<Rightarrow> Inr None)"

text \<open>
  Conversion to a string (template literals, \<^verbatim>\<open>join\<close>, \<^verbatim>\<open>new Error\<close>). A parsed
  object that owns a key \<^verbatim>\<open>toString\<close> has no callable conversion left and the engine
  throws a TypeError; an array converts by joining its elements with a comma, \<^verbatim>\<open>null\<close>
  elements as the empty string.
\<close>

fun to_string_throws :: "json \<Rightarrow> bool" where
  "to_string_throws (JObj kvs) = (''toString'' \<in> fst ` set kvs)"
| "to_string_throws (JArr xs) = (\<exists>x \<in> set xs. to_string_throws x)"
| "to_string_throws JNull = False"
| "to_string_throws (JBool b) = False"
| "to_string_throws (JNum q) = False"
| "to_string_throws (JStr s) = False"

fun join_with :: "string \<Rightarrow> piece list list \<Rightarrow> piece list" where
  "join_with sep [] = []"
| "join_with sep [p] = p"
| "join_with sep (p # q # ps) = p @ Lit sep # join_with sep (q # ps)"

fun string_of :: "json \<Rightarrow> piece list" where
  "string_of JNull = [Lit ''null'']"
| "string_of (JBool b) = [Lit (if b then ''true'' else ''false'')]"
| "string_of (JNum q) = [NumText q]"
| "string_of (JStr s) = [Lit s]"
| "string_of (JArr xs) = join_with '','' (map (\<lambda>x. if x = JNull then [] else string_of x) xs)"
| "string_of (JObj kvs) = [Lit ''[object Object]'']"

definition to_string :: "json \<Rightarrow> exn + piece list" where
  "to_string v = (if to_string_throws v then Inl (Engine TypeError) else Inr (string_of v))"

text \<open>An interpolation \<^verbatim>\<open>${v}\<close> in a template literal.\<close>

definition interp :: "json option \<Rightarrow> exn + piece list" where
  "interp v = (case v of None \<Rightarrow> Inr [Lit ''undefined''] | Some j \<Rightarrow> to_string j)"

text \<open>\<^verbatim>\<open>v.join(sep)\<close>: only an array has a callable \<^verbatim>\<open>join\<close>.\<close>

definition join_call :: "json option \<Rightarrow> string \<Rightarrow> exn + piece list" where
  "join_call v sep =
     (case v of
        Some (JArr xs) \<Rightarrow>
          (if \<exists>x \<in> set xs. to_string_throws x then Inl (Engine TypeError)
           else Inr (join_with sep (map (\<lambda>x. if x = JNull then [] else string_of x) xs)))
      | _ \<Rightarrow> Inl (Engine TypeError))"

text \<open>\<^verbatim>\<open>String.prototype.includes\<close>: the pattern occurs as a contiguous substring.\<close>

fun starts_with :: "string \<Rightarrow> string \<Rightarrow> bool" where
  "starts_with s [] = True"
| "starts_with [] (p # ps) = False"
| "starts_with (c # cs) (p # ps) = (c = p \<and> starts_with cs ps)"

fun str_includes :: "string \<Rightarrow> string \<Rightarrow> bool" where
  "str_includes [] pat = (pat = [])"
| "str_includes (c # cs) pat = (starts_with (c # cs) pat \<or> str_includes cs pat)"

text \<open>
  \<^verbatim>\<open>v.includes(pat)\<close> on a truthy value: a string searches for a substring, an array
  for an element equal to the pattern; nothing else has a callable \<^verbatim>\<open>includes\<close>.
\<close>

definition includes_call :: "json option \<Rightarrow> string \<Rightarrow> exn + bool" where
  "includes_call v pat =
     (case v of
        Some (JStr s) \<Rightarrow> Inr (str_includes s pat)
      | Some (JArr xs) \<Rightarrow> Inr (JStr pat \<in> set xs)
      | _ \<Rightarrow> Inl (Engine TypeError))"

text \<open>Sequencing of evaluations that may throw.\<close>

definition then_exn :: "exn + 'a \<Rightarrow> ('a \<Rightarrow> exn + 'b) \<Rightarrow> exn + 'b" where
  "then_exn r f = (case r of Inl e \<Rightarrow> Inl e | Inr x \<Rightarrow> f x)"

text \<open>\<^verbatim>\<open>String.prototype.split\<close> at a one-character separator, and indexing.\<close>

fun split_on :: "char \<Rightarrow> string \<Rightarrow> string list" where
  "split_on c [] = [[]]"
| "split_on c (x # xs) =
     (if x = c then [] # split_on c xs
      else (case split_on c xs of [] \<Rightarrow> [[x]] | p # ps \<Rightarrow> (x # p) # ps))"

definition nth_opt :: "'a list \<Rightarrow> nat \<Rightarrow> 'a option" where
  "nth_opt xs i = (if i < length xs then Some (xs ! i) else None)"

text \<open>
  \<^verbatim>\<open>JSON.stringify\<close> of an object literal: a property whose value is
  \<^verbatim>\<open>undefined\<close> is left out. The request body is kept as the JSON value the
  serialised text denotes.
\<close>

definition JSON_stringify :: "(string \<times> json option) list \<Rightarrow> json" where
  "JSON_stringify props =
     JObj (concat (map (\<lambda>(k, v). case v of None \<Rightarrow> [] | Some j \<Rightarrow> [(k, j)]) props))"

section \<open>The page: elements, state and collaborators\<close>

text \<open>
  The insurance selector of \<^verbatim>\<open>frontend/index.html\<close> is a single-choice
  \<^verbatim>\<open>select\<close>: one of its options is selected at every moment (the first one
  initially), and \<^verbatim>\<open>insuranceSelect.value\<close> is the \<^verbatim>\<open>value\<close> attribute of
  that option.
\<close>

datatype insurer = Aetna | Bcbs | Cigna | Humana | Kaiser | United | Medicare | Medicaid | Other

definition insuranceSelect_options :: "insurer list" where
  "insuranceSelect_options = [Aetna, Bcbs, Cigna, Humana, Kaiser, United, Medicare, Medicaid, Other]"

fun option_value :: "insurer \<Rightarrow> string" where
  "option_value Aetna = ''aetna''"
| "option_value Bcbs = ''bcbs''"
| "option_value Cigna = ''cigna''"
| "option_value Humana = ''humana''"
| "option_value Kaiser = ''kaiser''"
| "option_value United = ''united''"
| "option_value Medicare = ''medicare''"
| "option_value Medicaid = ''medicaid''"
| "option_value Other = ''other''"

text \<open>A file the user picked: its name and its content.\<close>

datatype jsfile = File string string

text \<open>
  The state the script reads and writes: the values of the three inputs, the variable
  \<^verbatim>\<open>selectedFile\<close> (\<open>None\<close> is \<^verbatim>\<open>null\<close>), and the properties it sets on the
  submit button, its label (\<^verbatim>\<open>btnText\<close>, only in the inlined script), the spinner and
  the result box.
\<close>

record ui =
  treatmentTypeInput_value :: string
  patientNameInput_value :: string
  insuranceSelect_selected :: insurer
  selectedFile :: "jsfile option"
  submitBtn_disabled :: bool
  btnText_display :: string
  loadingSpinner_display :: string
  resultDiv_display :: string
  resultDiv_className :: string
  resultDiv_innerHTML :: "piece list"

text \<open>
  A response: its status and what \<^verbatim>\<open>response.json()\<close> settles to (a rejection when
  the body is not JSON). \<^verbatim>\<open>response.ok\<close> is a status from 200 to 299.
\<close>

record response =
  status :: nat
  json_result :: "exn + json"

definition ok :: "response \<Rightarrow> bool" where
  "ok r = (200 \<le> status r \<and> status r \<le> 299)"

text \<open>
  The collaborators of one submission: what the \<^verbatim>\<open>FileReader\<close> yields for a file
  (its data URL, or the error event), and what \<^verbatim>\<open>fetch\<close> settles to for a URL and a
  body (a rejection, or a response).
\<close>

record env =
  readAsDataURL :: "jsfile \<Rightarrow> exn + string"
  fetch :: "string \<Rightarrow> json \<Rightarrow> exn + response"

text \<open>What a run does that is visible from outside, in order.\<close>

datatype event =
    ShowResult "piece list" string
  | ReadFile jsfile
  | Fetch string json
  | DisplayResults json
  | ConsoleError exn

text \<open>
  The result of a run of the handler: the state it leaves, what it did, and the exception
  that left the function, if one did (the rejection of the promise the \<^verbatim>\<open>async\<close>
  function returns).
\<close>

record outcome =
  final :: ui
  trace :: "event list"
  escaped :: "exn option"

definition API_ENDPOINT :: string where
  "API_ENDPOINT = ''https://hkj8c4zag9.execute-api.us-east-1.amazonaws.com/prod/submit''"

text \<open>The characters of the templates that are not ASCII, as their UTF-8 bytes.\<close>

definition dq :: string where
  "dq = [CHR 0x22]"

definition check_mark :: string where
  "check_mark = [CHR 0xE2, CHR 0x9C, CHR 0x85]"

definition cross_mark :: string where
  "cross_mark = [CHR 0xE2, CHR 0x9D, CHR 0x8C]"

definition hourglass :: string where
  "hourglass = [CHR 0xE2, CHR 0x8F, CHR 0xB3]"

definition warning_sign :: string where
  "warning_sign = [CHR 0xE2, CHR 0x9A, CHR 0xA0, CHR 0xEF, CHR 0xB8, CHR 0x8F]"

section \<open>The handlers of \<^verbatim>\<open>frontend/app.js\<close>\<close>

definition showResult :: "piece list \<Rightarrow> string \<Rightarrow> ui \<Rightarrow> ui" where
  "showResult msg ty s =
     s\<lparr>resultDiv_display := ''block'',
       resultDiv_className := (if ty = ''error'' then ''denied'' else ''processing''),
       resultDiv_innerHTML := msg\<rparr>"

definition readFileAsBase64 :: "env \<Rightarrow> jsfile \<Rightarrow> exn + string option" where
  "readFileAsBase64 env f =
     (case readAsDataURL env f of
        Inl e \<Rightarrow> Inl e
      | Inr url \<Rightarrow> Inr (nth_opt (split_on CHR '','' url) 1))"

text \<open>
  The three templates of \<^verbatim>\<open>displayResults\<close>. The literal text of a template is kept
  but for the line breaks and the indentation between its tags; the interpolations are
  evaluated left to right, and the first one that throws ends the evaluation. The heading
  word is a parameter: it is the one place where the inlined script's templates differ.
\<close>

definition notes_html :: "json option \<Rightarrow> exn + piece list" where
  "notes_html md =
     then_exn (length_prop md) (\<lambda>n.
       if truthy_opt n then
         then_exn (join_call md '', '') (\<lambda>js.
           Inr ([Lit (''<div class='' @ dq @ ''notes'' @ dq @ ''><p><strong>Note:</strong> '')]
                @ js @ [Lit ''</p></div>'']))
       else Inr [])"

definition alternatives_html :: "json option \<Rightarrow> exn + piece list" where
  "alternatives_html alt =
     then_exn (length_prop alt) (\<lambda>n.
       if truthy_opt n then
         then_exn (join_call alt '', '') (\<lambda>js.
           Inr ([Lit ''<p><strong>Alternatives:</strong> ''] @ js @ [Lit ''</p>'']))
       else Inr [])"

definition appeal_html :: "json option \<Rightarrow> exn + piece list" where
  "appeal_html ag =
     (if truthy_opt ag then
        then_exn (interp ag) (\<lambda>t.
          Inr ([Lit ''<p><strong>Appeal Guidance:</strong> ''] @ t @ [Lit ''</p>'']))
      else Inr [])"

definition approved_html :: "string \<Rightarrow> json \<Rightarrow> json \<Rightarrow> exn + piece list" where
  "approved_html heading data analysis =
     then_exn (then_exn (get_prop analysis ''confidence_score'') interp) (\<lambda>cs.
     then_exn (then_exn (get_prop analysis ''reason'') interp) (\<lambda>reason.
     then_exn (then_exn (get_prop data ''request_id'') interp) (\<lambda>rid.
     then_exn (then_exn (get_prop analysis ''missing_documentation'') notes_html) (\<lambda>notes.
       Inr ([Lit (''<h3>'' @ check_mark @ '' '' @ heading @ '' ('')] @ cs
            @ [Lit ''% confidence)</h3><p><strong>Reason:</strong> ''] @ reason
            @ [Lit ''</p><p><strong>Request ID:</strong> ''] @ rid
            @ [Lit ''</p>''] @ notes)))))"

definition denied_html :: "string \<Rightarrow> json \<Rightarrow> json \<Rightarrow> exn + piece list" where
  "denied_html heading data analysis =
     then_exn (then_exn (get_prop analysis ''confidence_score'') interp) (\<lambda>cs.
     then_exn (then_exn (get_prop analysis ''reason'') interp) (\<lambda>reason.
     then_exn (then_exn (get_prop analysis ''alternative_treatments'') alternatives_html) (\<lambda>alts.
     then_exn (then_exn (get_prop analysis ''appeal_guidance'') appeal_html) (\<lambda>appeal.
     then_exn (then_exn (get_prop data ''request_id'') interp) (\<lambda>rid.
       Inr ([Lit (''<h3>'' @ cross_mark @ '' '' @ heading @ '' ('')] @ cs
            @ [Lit ''% confidence)</h3><p><strong>Reason:</strong> ''] @ reason
            @ [Lit ''</p>''] @ alts @ appeal
            @ [Lit ''<p><strong>Request ID:</strong> ''] @ rid @ [Lit ''</p>'']))))))"

text \<open>
  \<^verbatim>\<open>Math.round(v * 100)\<close>: the conversion of \<open>v\<close> to a number throws where its
  conversion to a string does.
\<close>

definition round_pct :: "json option \<Rightarrow> exn + piece list" where
  "round_pct v =
     (case v of
        None \<Rightarrow> Inr [RoundPct None]
      | Some j \<Rightarrow> if to_string_throws j then Inl (Engine TypeError) else Inr [RoundPct v])"

text \<open>\<^verbatim>\<open>v.map(step => `<li>${step}</li>`).join('')\<close>: only an array has a callable \<^verbatim>\<open>map\<close>.\<close>

definition steps_html :: "json option \<Rightarrow> exn + piece list" where
  "steps_html ns =
     (case ns of
        Some (JArr steps) \<Rightarrow>
          (if \<exists>x \<in> set steps. to_string_throws x then Inl (Engine TypeError)
           else Inr (join_with []
                  (map (\<lambda>step. [Lit ''<li>''] @ string_of step @ [Lit ''</li>'']) steps)))
      | _ \<Rightarrow> Inl (Engine TypeError))"

definition processing_html :: "string \<Rightarrow> json \<Rightarrow> exn + piece list" where
  "processing_html heading data =
     then_exn (then_exn (get_prop data ''approval_probability'') round_pct) (\<lambda>pct.
     then_exn (then_exn (get_prop data ''next_steps'') steps_html) (\<lambda>steps.
       Inr ([Lit (''<h3>'' @ hourglass @ '' '' @ heading
                  @ ''</h3><p>Initial analysis complete. AI review pending.</p>''
                  @ ''<p><strong>Approval Probability:</strong> '')] @ pct
            @ [Lit ''%</p><p><strong>Next Steps:</strong></p><ul>''] @ steps @ [Lit ''</ul>''])))"

text \<open>
  An assignment to \<^verbatim>\<open>className\<close> followed by one to \<^verbatim>\<open>innerHTML\<close> whose
  right-hand side may throw: the class name is set before the template is evaluated, the
  content only when the template evaluated.
\<close>

definition render :: "string \<Rightarrow> exn + piece list \<Rightarrow> ui \<Rightarrow> ui \<times> exn option" where
  "render cls html s =
     (case html of
        Inl e \<Rightarrow> (s\<lparr>resultDiv_className := cls\<rparr>, Some e)
      | Inr h \<Rightarrow> (s\<lparr>resultDiv_className := cls, resultDiv_innerHTML := h\<rparr>, None))"

text \<open>
  The condition \<^verbatim>\<open>data.ai_analysis && data.ai_analysis.decision\<close>: the decision when
  the analysis is truthy, the (falsy) analysis otherwise.
\<close>

definition analysis_decision :: "json option \<Rightarrow> exn + json option" where
  "analysis_decision a = (if truthy_opt a then get_prop_opt a ''decision'' else Inr a)"

definition displayResults :: "json \<Rightarrow> ui \<Rightarrow> ui \<times> exn option" where
  "displayResults data s =
     (let s1 = s\<lparr>resultDiv_display := ''block''\<rparr> in
      case get_prop data ''ai_analysis'' of
        Inl e \<Rightarrow> (s1, Some e)
      | Inr a \<Rightarrow>
          (case analysis_decision a of
             Inl e \<Rightarrow> (s1, Some e)
           | Inr d \<Rightarrow>
               if truthy_opt d then
                 (case includes_call d ''APPROVED'' of
                    Inl e \<Rightarrow> (s1, Some e)
                  | Inr True \<Rightarrow> render ''approved'' (approved_html ''Approved'' data (the a)) s1
                  | Inr False \<Rightarrow> render ''denied'' (denied_html ''Denied'' data (the a)) s1)
               else render ''processing'' (processing_html ''Processing'' data) s1))"

text \<open>\<^verbatim>\<open>new Error(data.error || 'Failed to process request')\<close>, or what evaluating it throws.\<close>

definition request_failure :: "json \<Rightarrow> exn" where
  "request_failure data =
     (case get_prop data ''error'' of
        Inl e \<Rightarrow> e
      | Inr v \<Rightarrow>
          if truthy_opt v then (case interp v of Inl e \<Rightarrow> e | Inr m \<Rightarrow> Error m)
          else Error [Lit ''Failed to process request''])"

text \<open>\<^verbatim>\<open>error.message\<close> of a caught value.\<close>

fun message :: "exn \<Rightarrow> piece list" where
  "message (Error m) = m"
| "message ProgressEvent = [Lit ''undefined'']"
| "message (Engine e) = [EngineMsg e]"

definition request_payload :: "string option \<Rightarrow> ui \<Rightarrow> (string \<times> json option) list" where
  "request_payload base64Data s =
     [(''document'', map_option JStr base64Data),
      (''insurance_type'', Some (JStr (option_value (insuranceSelect_selected s)))),
      (''treatment_type'', Some (JStr (treatmentTypeInput_value s))),
      (''patient_name'',
         if patientNameInput_value s \<noteq> [] then Some (JStr (patientNameInput_value s)) else None)]"

text \<open>
  The \<^verbatim>\<open>try\<close> block, with the page's \<^verbatim>\<open>displayResults\<close> as a parameter: the
  state it leaves, what it did, and the exception it threw, if any. A run is taken as a
  whole: the payload reads the inputs from the state the handler was started in. In the
  browser the user can still edit the inputs while the file is read (only the button is
  disabled), so that the treatment sent is the input's value when the payload is built,
  which validation has not seen.
\<close>

definition try_block ::
  "(json \<Rightarrow> ui \<Rightarrow> ui \<times> exn option) \<Rightarrow> env \<Rightarrow> jsfile \<Rightarrow> ui \<Rightarrow> ui \<times> event list \<times> exn option" where
  "try_block display env f s =
     (case readFileAsBase64 env f of
        Inl e \<Rightarrow> (s, [ReadFile f], Some e)
      | Inr base64Data \<Rightarrow>
          (let body = JSON_stringify (request_payload base64Data s);
               tr = [ReadFile f, Fetch API_ENDPOINT body]
           in case fetch env API_ENDPOINT body of
                Inl e \<Rightarrow> (s, tr, Some e)
              | Inr resp \<Rightarrow>
                  (case json_result resp of
                     Inl e \<Rightarrow> (s, tr, Some e)
                   | Inr data \<Rightarrow>
                       if ok resp then
                         (case display data s of (s', r) \<Rightarrow> (s', tr @ [DisplayResults data], r))
                       else (s, tr, Some (request_failure data)))))"

definition submitForApproval :: "env \<Rightarrow> ui \<Rightarrow> outcome" where
  "submitForApproval env s =
     (if treatmentTypeInput_value s = [] then
        \<lparr>final = showResult [Lit ''Please specify the treatment type''] ''error'' s,
         trace = [ShowResult [Lit ''Please specify the treatment type''] ''error''],
         escaped = None\<rparr>
      else case selectedFile s of
        None \<Rightarrow>
          \<lparr>final = showResult [Lit ''Please select a medical document''] ''error'' s,
           trace = [ShowResult [Lit ''Please select a medical document''] ''error''],
           escaped = None\<rparr>
      | Some f \<Rightarrow>
          (let s1 = s\<lparr>submitBtn_disabled := True,
                      loadingSpinner_display := ''block'',
                      resultDiv_display := ''none''\<rparr>
           in case try_block displayResults env f s1 of
                (s2, tr, None) \<Rightarrow>
                  \<lparr>final = s2\<lparr>submitBtn_disabled := False, loadingSpinner_display := ''none''\<rparr>,
                   trace = tr,
                   escaped = None\<rparr>
              | (s2, tr, Some error) \<Rightarrow>
                  (let msg = Lit ''Error: '' # message error;
                       s3 = showResult msg ''error'' s2
                   in \<lparr>final = s3\<lparr>submitBtn_disabled := False, loadingSpinner_display := ''none''\<rparr>,
                       trace = tr @ [ConsoleError error, ShowResult msg ''error''],
                       escaped = None\<rparr>)))"

section \<open>The handlers of the inlined script (\<^verbatim>\<open>unnamed/part_000\<close>)\<close>

text \<open>
  The inlined script is the same program with another styling: the class names carry the
  prefix \<^verbatim>\<open>result\<close>, the headings are in capitals, \<^verbatim>\<open>showResult\<close> wraps
  its message in markup, and the handler also hides and restores the label of the button.
\<close>

definition showResult_inline :: "piece list \<Rightarrow> string \<Rightarrow> ui \<Rightarrow> ui" where
  "showResult_inline msg ty s =
     s\<lparr>resultDiv_display := ''block'',
       resultDiv_className := (if ty = ''error'' then ''result denied'' else ''result processing''),
       resultDiv_innerHTML :=
         [Lit (''<h3>'' @ (if ty = ''error'' then cross_mark else warning_sign) @ ''</h3><p>'')]
         @ msg @ [Lit ''</p>'']\<rparr>"

definition displayResults_inline :: "json \<Rightarrow> ui \<Rightarrow> ui \<times> exn option" where
  "displayResults_inline data s =
     (let s1 = s\<lparr>resultDiv_display := ''block''\<rparr> in
      case get_prop data ''ai_analysis'' of
        Inl e \<Rightarrow> (s1, Some e)
      | Inr a \<Rightarrow>
          (case analysis_decision a of
             Inl e \<Rightarrow> (s1, Some e)
           | Inr d \<Rightarrow>
               if truthy_opt d then
                 (case includes_call d ''APPROVED'' of
                    Inl e \<Rightarrow> (s1, Some e)
                  | Inr True \<Rightarrow>
                      render ''result approved'' (approved_html ''APPROVED'' data (the a)) s1
                  | Inr False \<Rightarrow>
                      render ''result denied'' (denied_html ''DENIED'' data (the a)) s1)
               else render ''result processing'' (processing_html ''PROCESSING'' data) s1))"

definition submitForApproval_inline :: "env \<Rightarrow> ui \<Rightarrow> outcome" where
  "submitForApproval_inline env s =
     (if treatmentTypeInput_value s = [] then
        \<lparr>final = showResult_inline [Lit ''Please specify the treatment type''] ''error'' s,
         trace = [ShowResult [Lit ''Please specify the treatment type''] ''error''],
         escaped = None\<rparr>
      else case selectedFile s of
        None \<Rightarrow>
          \<lparr>final = showResult_inline [Lit ''Please select a medical document''] ''error'' s,
           trace = [ShowResult [Lit ''Please select a medical document''] ''error''],
           escaped = None\<rparr>
      | Some f \<Rightarrow>
          (let s1 = s\<lparr>submitBtn_disabled := True,
                      btnText_display := ''none'',
                      loadingSpinner_display := ''block'',
                      resultDiv_display := ''none''\<rparr>
           in case try_block displayResults_inline env f s1 of
                (s2, tr, None) \<Rightarrow>
                  \<lparr>final = s2\<lparr>submitBtn_disabled := False,
                               btnText_display := ''inline'',
                               loadingSpinner_display := ''none''\<rparr>,
                   trace = tr,
                   escaped = None\<rparr>
              | (s2, tr, Some error) \<Rightarrow>
                  (let msg = Lit ''Error: '' # message error;
                       s3 = showResult_inline msg ''error'' s2
                   in \<lparr>final = s3\<lparr>submitBtn_disabled := False,
                                    btnText_display := ''inline'',
                                    loadingSpinner_display := ''none''\<rparr>,
                       trace = tr @ [ConsoleError error, ShowResult msg ''error''],
                       escaped = None\<rparr>)))"

section \<open>Reading a run\<close>

text \<open>The requests a run sent, the messages it showed, the data it handed to \<^verbatim>\<open>displayResults\<close>.\<close>

fun requests_sent :: "event list \<Rightarrow> (string \<times> json) list" where
  "requests_sent [] = []"
| "requests_sent (Fetch url body # es) = (url, body) # requests_sent es"
| "requests_sent (e # es) = requests_sent es"

fun shown :: "event list \<Rightarrow> (piece list \<times> string) list" where
  "shown [] = []"
| "shown (ShowResult msg ty # es) = (msg, ty) # shown es"
| "shown (e # es) = shown es"

fun display_calls :: "event list \<Rightarrow> json list" where
  "display_calls [] = []"
| "display_calls (DisplayResults data # es) = data # display_calls es"
| "display_calls (e # es) = display_calls es"

definition json_keys :: "json \<Rightarrow> string list" where
  "json_keys v = (case v of JObj kvs \<Rightarrow> map fst kvs | _ \<Rightarrow> [])"

text \<open>The state in which the \<^verbatim>\<open>try\<close> block of \<^verbatim>\<open>app.js\<close> starts.\<close>

definition loading :: "ui \<Rightarrow> ui" where
  "loading s = s\<lparr>submitBtn_disabled := True,
                 loadingSpinner_display := ''block'',
                 resultDiv_display := ''none''\<rparr>"

section \<open>Sample inputs\<close>

text \<open>
  A filled form (the page as loaded, with a treatment, a patient name, the second insurer
  and a file picked), the same form with the two text inputs left empty, and collaborators
  that read the file and answer every request with a given response.
\<close>

definition filled_form :: ui where
  "filled_form =
     \<lparr>treatmentTypeInput_value = ''MRI Knee'',
      patientNameInput_value = ''Jane Doe'',
      insuranceSelect_selected = Bcbs,
      selectedFile = Some (File ''scan.pdf'' ''%PDF''),
      submitBtn_disabled = False,
      btnText_display = [],
      loadingSpinner_display = [],
      resultDiv_display = [],
      resultDiv_className = ''result'',
      resultDiv_innerHTML = []\<rparr>"

definition blank_form :: ui where
  "blank_form = filled_form\<lparr>treatmentTypeInput_value := [], patientNameInput_value := []\<rparr>"

definition anonymous_form :: ui where
  "anonymous_form = filled_form\<lparr>patientNameInput_value := []\<rparr>"

definition server :: "response \<Rightarrow> env" where
  "server resp =
     \<lparr>readAsDataURL = (\<lambda>f. Inr ''data:application/pdf;base64,JVBERg==''),
      fetch = (\<lambda>url body. Inr resp)\<rparr>"

definition approved_reply :: json where
  "approved_reply =
     JObj [(''request_id'', JStr ''req_123''),
           (''ai_analysis'',
              JObj [(''decision'', JStr ''APPROVED''),
                    (''reason'', JStr ''ok''),
                    (''confidence_score'', JNum 91),
                    (''missing_documentation'', JArr []),
                    (''alternative_treatments'', JArr []),
                    (''appeal_guidance'', JStr [])])]"

definition pending_reply :: json where
  "pending_reply =
     JObj [(''request_id'', JStr ''req_124''),
           (''ai_analysis'',
              JObj [(''decision'', JStr ''PENDING''),
                    (''reason'', JStr ''manual review required''),
                    (''confidence_score'', JNum 0),
                    (''missing_documentation'', JArr []),
                    (''alternative_treatments'', JArr []),
                    (''appeal_guidance'', JStr [])])]"

definition bare_approval :: json where
  "bare_approval = JObj [(''ai_analysis'', JObj [(''decision'', JStr ''APPROVED'')])]"

section \<open>The decision pipeline\<close>

text \<open>
  The pipeline runs in \<^verbatim>\<open>lambda_function.py\<close>, which the README names as the main
  application logic and which is not among the sources. Its two components below are
  written from the specification's sections 4.1 and 4.4.
\<close>

subsection \<open>Treatment Categorizer\<close>

text \<open>
  Modelled from the spec: the closed enumeration of treatment categories (section 3); the
  categorizer's code is missing.
\<close>

datatype category =
    Mri
  | Diabetes_medication
  | Physical_therapy
  | Surgery
  | Oncology
  | Mental_health
  | Other_treatment

text \<open>
  Modelled from the spec: "text is trimmed, case-normalized before matching" (section 4.1);
  the categorizer's code is missing. Trimming removes the ASCII white space at both ends,
  case normalisation maps the ASCII capitals to small letters.
\<close>

definition is_space :: "char \<Rightarrow> bool" where
  "is_space c = (c \<in> set [CHR '' '', CHR 0x09, CHR 0x0A, CHR 0x0B, CHR 0x0C, CHR 0x0D])"

definition trim :: "string \<Rightarrow> string" where
  "trim s = rev (dropWhile is_space (rev (dropWhile is_space s)))"

definition lower_char :: "char \<Rightarrow> char" where
  "lower_char c =
     (case map_of (zip ''ABCDEFGHIJKLMNOPQRSTUVWXYZ'' ''abcdefghijklmnopqrstuvwxyz'') c of
        Some l \<Rightarrow> l
      | None \<Rightarrow> c)"

definition normalize :: "string \<Rightarrow> string" where
  "normalize s = map lower_char (trim s)"

text \<open>
  Modelled from the spec: "maintain an ordered list of (category, keyword-set) pairs; scan
  the normalized text for any keyword in each set, in a fixed priority order; the first
  category with a match wins; if no keyword set matches, return other" (section 4.1); the
  categorizer's code and its keyword table are missing, so the table is a parameter.
\<close>

fun first_match :: "(category \<times> string list) list \<Rightarrow> string \<Rightarrow> category" where
  "first_match [] t = Other_treatment"
| "first_match ((c, kws) # rest) t =
     (if \<exists>k \<in> set kws. str_includes t k then c else first_match rest t)"

definition categorize :: "(category \<times> string list) list \<Rightarrow> string \<Rightarrow> category" where
  "categorize table t = first_match table (normalize t)"

text \<open>A keyword table in the order of the specification's examples, for sample runs.\<close>

definition sample_keywords :: "(category \<times> string list) list" where
  "sample_keywords =
     [(Oncology, [''chemotherapy'', ''oncology'']),
      (Mri, [''mri'']),
      (Physical_therapy, [''physical therapy''])]"

subsection \<open>Decision Extractor\<close>

text \<open>
  Modelled from the spec: the DecisionRecord of section 3, without the three fields the
  orchestrator fills in afterwards; the extractor's code is missing.
\<close>

datatype decision_value = APPROVED | DENIED | PENDING

record decision_record =
  decision :: decision_value
  reason :: string
  confidenceScore :: int
  missingDocumentation :: "string list"
  alternativeTreatments :: "string list"
  appealGuidance :: string

text \<open>
  Modelled from the spec: the Fallback state, "synthesize a PENDING decision with a fixed,
  explanatory reason (e.g. automated analysis incomplete, manual review required),
  confidenceScore = 0, empty documentation/alternatives/appeal fields" (section 4.4); the
  extractor's code is missing.
\<close>

definition fallback :: decision_record where
  "fallback =
     \<lparr>decision = PENDING,
      reason = ''automated analysis incomplete, manual review required'',
      confidenceScore = 0,
      missingDocumentation = [],
      alternativeTreatments = [],
      appealGuidance = []\<rparr>"

text \<open>
  Modelled from the spec: the Locate state, "search the raw returned text for the first
  well-formed JSON object (balanced braces, a permissive structural scan)" (section 4.4);
  the extractor's code is missing. \<open>balanced_rest d cs\<close> is the text up to the brace
  that closes \<open>d\<close> open ones.
\<close>

fun balanced_rest :: "nat \<Rightarrow> string \<Rightarrow> string option" where
  "balanced_rest d [] = None"
| "balanced_rest d (c # cs) =
     (if c = CHR ''{'' then map_option ((#) c) (balanced_rest (Suc d) cs)
      else if c = CHR ''}'' then
        (case d of
           0 \<Rightarrow> None
         | Suc 0 \<Rightarrow> Some [c]
         | Suc (Suc k) \<Rightarrow> map_option ((#) c) (balanced_rest (Suc k) cs))
      else map_option ((#) c) (balanced_rest d cs))"

fun locate :: "string \<Rightarrow> string option" where
  "locate [] = None"
| "locate (c # cs) =
     (if c = CHR ''{'' then
        (case balanced_rest 1 cs of Some t \<Rightarrow> Some (c # t) | None \<Rightarrow> locate cs)
      else locate cs)"

text \<open>
  Modelled from the spec: the Validate state (section 4.4); the extractor's code is
  missing. The decision must be one of the three values; the confidence score is clamped
  into 0..100; an absent optional field defaults to empty. The keys are those of the
  specification's round-trip example. Where the specification is silent (a field of
  another type, a missing reason or score), validation fails, Fallback being the only
  other terminal state.
\<close>

definition decision_of :: "json option \<Rightarrow> decision_value option" where
  "decision_of v =
     (case v of
        Some (JStr s) \<Rightarrow>
          if s = ''APPROVED'' then Some APPROVED
          else if s = ''DENIED'' then Some DENIED
          else if s = ''PENDING'' then Some PENDING
          else None
      | _ \<Rightarrow> None)"

definition clamp_score :: "rat \<Rightarrow> int" where
  "clamp_score q = max 0 (min 100 \<lfloor>q\<rfloor>)"

fun string_items :: "json list \<Rightarrow> string list option" where
  "string_items [] = Some []"
| "string_items (JStr s # vs) = map_option ((#) s) (string_items vs)"
| "string_items (v # vs) = None"

definition string_list_field :: "json option \<Rightarrow> string list option" where
  "string_list_field v =
     (case v of None \<Rightarrow> Some [] | Some (JArr vs) \<Rightarrow> string_items vs | Some _ \<Rightarrow> None)"

definition string_field :: "json option \<Rightarrow> string option" where
  "string_field v = (case v of None \<Rightarrow> Some [] | Some (JStr s) \<Rightarrow> Some s | Some _ \<Rightarrow> None)"

definition validate :: "json \<Rightarrow> decision_record option" where
  "validate v =
     (case v of
        JObj kvs \<Rightarrow>
          (case (decision_of (map_of kvs ''decision''),
                 map_of kvs ''reason'',
                 map_of kvs ''confidence_score'',
                 string_list_field (map_of kvs ''missing_documentation''),
                 string_list_field (map_of kvs ''alternative_treatments''),
                 string_field (map_of kvs ''appeal_guidance'')) of
             (Some d, Some (JStr r), Some (JNum q), Some md, Some alt, Some ag) \<Rightarrow>
               Some \<lparr>decision = d, reason = r, confidenceScore = clamp_score q,
                     missingDocumentation = md, alternativeTreatments = alt,
                     appealGuidance = ag\<rparr>
           | _ \<Rightarrow> None)
      | _ \<Rightarrow> None)"

text \<open>
  Modelled from the spec: the extractor's linear state machine Invoke, Locate, Parse,
  Validate, Accept, with Fallback from every failure (section 4.4); the extractor's code
  is missing (\<^verbatim>\<open>extract\<close> in the specification). The invocation of the model
  (\<open>invoke\<close>: a text, or a transport failure or timeout) and the JSON deserialiser
  (\<open>None\<close> for malformed text) are its collaborators.
\<close>

datatype invocation_error = Timeout | TransportFailure

definition extract_decision ::
  "(string \<Rightarrow> invocation_error + string) \<Rightarrow> (string \<Rightarrow> json option) \<Rightarrow> string \<Rightarrow> decision_record" where
  "extract_decision invoke deserialize promptText =
     (case invoke promptText of
        Inl e \<Rightarrow> fallback
      | Inr raw \<Rightarrow>
          (case locate raw of
             None \<Rightarrow> fallback
           | Some located \<Rightarrow>
               (case deserialize located of
                  None \<Rightarrow> fallback
                | Some v \<Rightarrow> (case validate v of None \<Rightarrow> fallback | Some r \<Rightarrow> r))))"

text \<open>
  Sample collaborators: two object texts and a deserialiser that knows them.
\<close>

definition maybe_text :: string where
  "maybe_text = ''{'' @ dq @ ''decision'' @ dq @ '':'' @ dq @ ''MAYBE'' @ dq @ ''}''"

definition reasonless_text :: string where
  "reasonless_text = ''{'' @ dq @ ''reason'' @ dq @ '':'' @ dq @ ''ok'' @ dq @ ''}''"

definition sample_deserialize :: "string \<Rightarrow> json option" where
  "sample_deserialize t =
     (if t = maybe_text then Some (JObj [(''decision'', JStr ''MAYBE'')])
      else if t = reasonless_text then Some (JObj [(''reason'', JStr ''ok'')])
      else None)"

section \<open>Evaluating a run\<close>

text \<open>The defining equations a concrete run unfolds, and those of the sample inputs.\<close>

lemmas run_defs =
  submitForApproval_def submitForApproval_inline_def try_block_def Let_def
  showResult_def showResult_inline_def readFileAsBase64_def nth_opt_def
  JSON_stringify_def request_payload_def ok_def request_failure_def
  displayResults_def displayResults_inline_def analysis_decision_def render_def
  approved_html_def denied_html_def processing_html_def notes_html_def
  alternatives_html_def appeal_html_def round_pct_def steps_html_def
  get_prop_def get_prop_opt_def length_prop_def truthy_opt_def to_string_def interp_def
  join_call_def includes_call_def then_exn_def json_keys_def loading_def

lemmas sample_defs =
  filled_form_def blank_form_def anonymous_form_def server_def
  approved_reply_def pending_reply_def bare_approval_def

section \<open>Properties of the submit handler\<close>

text \<open>
  Claim C2. When the treatment input is empty the handler only shows the validation
  message and returns: the run is that one call of \<^verbatim>\<open>showResult\<close>, no file is read,
  no request is sent, nothing else of the state changes. Both scripts.
\<close>

theorem empty_treatment_fails_fast:
  assumes "treatmentTypeInput_value s = []"
  shows "submitForApproval env s =
           \<lparr>final = showResult [Lit ''Please specify the treatment type''] ''error'' s,
            trace = [ShowResult [Lit ''Please specify the treatment type''] ''error''],
            escaped = None\<rparr>
         \<and> requests_sent (trace (submitForApproval env s)) = []
         \<and> resultDiv_innerHTML (final (submitForApproval env s))
             = [Lit ''Please specify the treatment type'']
         \<and> submitForApproval_inline env s =
           \<lparr>final = showResult_inline [Lit ''Please specify the treatment type''] ''error'' s,
            trace = [ShowResult [Lit ''Please specify the treatment type''] ''error''],
            escaped = None\<rparr>
         \<and> requests_sent (trace (submitForApproval_inline env s)) = []"
  using assms by (simp add: submitForApproval_def submitForApproval_inline_def showResult_def)

theorem empty_treatment_fails_fast_witness:
  "treatmentTypeInput_value blank_form = []
   \<and> trace (submitForApproval (server \<lparr>status = 200, json_result = Inr approved_reply\<rparr>) blank_form)
       = [ShowResult [Lit ''Please specify the treatment type''] ''error'']
   \<and> requests_sent
        (trace (submitForApproval (server \<lparr>status = 200, json_result = Inr approved_reply\<rparr>) blank_form))
       = []"
proof -
  have h: "treatmentTypeInput_value blank_form = []"
    by (simp add: blank_form_def filled_form_def)
  from empty_treatment_fails_fast [OF h] show ?thesis
    using h by simp
qed

text \<open>
  Claim C10. Once validation has passed (the loading state is entered), the run ends with
  the submit button enabled and the spinner hidden, whatever the file reader, the network
  and the rendering did; the inlined script also shows the button's label again.
\<close>

theorem finally_restores_controls:
  assumes "treatmentTypeInput_value s \<noteq> []" and "selectedFile s = Some f"
  shows "submitBtn_disabled (final (submitForApproval env s)) = False
         \<and> loadingSpinner_display (final (submitForApproval env s)) = ''none''
         \<and> submitBtn_disabled (final (submitForApproval_inline env s)) = False
         \<and> loadingSpinner_display (final (submitForApproval_inline env s)) = ''none''
         \<and> btnText_display (final (submitForApproval_inline env s)) = ''inline''"
  using assms
  by (simp add: submitForApproval_def submitForApproval_inline_def Let_def
      split: prod.splits option.splits)

theorem finally_restores_controls_witness:
  "treatmentTypeInput_value filled_form \<noteq> []
   \<and> selectedFile filled_form = Some (File ''scan.pdf'' ''%PDF'')
   \<and> submitBtn_disabled
        (final (submitForApproval (server \<lparr>status = 200, json_result = Inr bare_approval\<rparr>) filled_form))
       = False
   \<and> loadingSpinner_display
        (final (submitForApproval (server \<lparr>status = 200, json_result = Inr bare_approval\<rparr>) filled_form))
       = ''none''"
proof -
  have h1: "treatmentTypeInput_value filled_form \<noteq> []"
    and h2: "selectedFile filled_form = Some (File ''scan.pdf'' ''%PDF'')"
    by (simp_all add: filled_form_def)
  from finally_restores_controls [OF h1 h2] show ?thesis
    using h1 h2 by simp
qed

text \<open>
  Claim C3. Once validation has passed, no exception leaves the handler, and exactly one of
  two things was produced. Either no message was shown, the response was an ok one and
  \<^verbatim>\<open>displayResults\<close> ran to its end on its data; or exactly one message was shown, the
  text \<^verbatim>\<open>Error: \<close> followed by the message of the exception caught, and
  \<^verbatim>\<open>displayResults\<close>, if it was called at all, threw that exception.
  Which of the two is decided by the collaborators: \<^verbatim>\<open>displayResults\<close> is called
  exactly when the file was read, the request was answered, the body was JSON and the
  response is an ok one, and then its result is what shows unless it throws; the message is
  that of the rejected read, fetch or \<^verbatim>\<open>json()\<close>, of the error made from a response that
  is not ok, or of the exception \<^verbatim>\<open>displayResults\<close> threw.
\<close>

theorem submit_shows_results_or_error:
  assumes "treatmentTypeInput_value s \<noteq> []" and "selectedFile s = Some f"
  shows "escaped (submitForApproval env s) = None \<and>
    ((shown (trace (submitForApproval env s)) = [] \<and>
      (\<exists>body resp data.
         requests_sent (trace (submitForApproval env s)) = [(API_ENDPOINT, body)] \<and>
         fetch env API_ENDPOINT body = Inr resp \<and> ok resp \<and> json_result resp = Inr data \<and>
         display_calls (trace (submitForApproval env s)) = [data] \<and>
         snd (displayResults data (loading s)) = None \<and>
         final (submitForApproval env s) =
           (fst (displayResults data (loading s)))
             \<lparr>submitBtn_disabled := False, loadingSpinner_display := ''none''\<rparr>))
     \<or>
     (\<exists>e. shown (trace (submitForApproval env s)) = [(Lit ''Error: '' # message e, ''error'')] \<and>
          resultDiv_innerHTML (final (submitForApproval env s)) = Lit ''Error: '' # message e \<and>
          list_all (\<lambda>data. snd (displayResults data (loading s)) = Some e)
             (display_calls (trace (submitForApproval env s)))))
    \<and> (case readFileAsBase64 env f of
         Inl e \<Rightarrow>
           shown (trace (submitForApproval env s)) = [(Lit ''Error: '' # message e, ''error'')]
           \<and> requests_sent (trace (submitForApproval env s)) = []
           \<and> display_calls (trace (submitForApproval env s)) = []
       | Inr base64Data \<Rightarrow>
           requests_sent (trace (submitForApproval env s))
             = [(API_ENDPOINT, JSON_stringify (request_payload base64Data s))]
           \<and> (case fetch env API_ENDPOINT (JSON_stringify (request_payload base64Data s)) of
                Inl e \<Rightarrow>
                  shown (trace (submitForApproval env s))
                    = [(Lit ''Error: '' # message e, ''error'')]
                  \<and> display_calls (trace (submitForApproval env s)) = []
              | Inr resp \<Rightarrow>
                  (case json_result resp of
                     Inl e \<Rightarrow>
                       shown (trace (submitForApproval env s))
                         = [(Lit ''Error: '' # message e, ''error'')]
                       \<and> display_calls (trace (submitForApproval env s)) = []
                   | Inr data \<Rightarrow>
                       if ok resp then
                         display_calls (trace (submitForApproval env s)) = [data]
                         \<and> (case snd (displayResults data (loading s)) of
                              None \<Rightarrow>
                                shown (trace (submitForApproval env s)) = []
                                \<and> final (submitForApproval env s) =
                                    (fst (displayResults data (loading s)))
                                      \<lparr>submitBtn_disabled := False,
                                       loadingSpinner_display := ''none''\<rparr>
                            | Some e \<Rightarrow>
                                shown (trace (submitForApproval env s))
                                  = [(Lit ''Error: '' # message e, ''error'')])
                       else
                         display_calls (trace (submitForApproval env s)) = []
                         \<and> shown (trace (submitForApproval env s))
                             = [(Lit ''Error: '' # message (request_failure data), ''error'')])))"
proof -
  have p: "request_payload d (loading s) = request_payload d s" for d
    by (simp add: request_payload_def loading_def)
  have l: "s\<lparr>submitBtn_disabled := True, loadingSpinner_display := ''block'',
             resultDiv_display := ''none''\<rparr> = loading s"
    by (simp add: loading_def)
  show ?thesis
    using assms
    by (auto simp: submitForApproval_def try_block_def Let_def l p showResult_def
        split: sum.splits option.splits prod.splits)
qed

theorem submit_shows_results_or_error_witness:
  "treatmentTypeInput_value filled_form \<noteq> []
   \<and> selectedFile filled_form = Some (File ''scan.pdf'' ''%PDF'')
   \<and> escaped (submitForApproval (server \<lparr>status = 200, json_result = Inr bare_approval\<rparr>) filled_form)
       = None
   \<and> shown (trace (submitForApproval (server \<lparr>status = 200, json_result = Inr bare_approval\<rparr>) filled_form))
       = [([Lit ''Error: '', EngineMsg TypeError], ''error'')]
   \<and> display_calls
        (trace (submitForApproval (server \<lparr>status = 200, json_result = Inr bare_approval\<rparr>) filled_form))
       = [bare_approval]
   \<and> shown (trace (submitForApproval (server \<lparr>status = 200, json_result = Inr approved_reply\<rparr>) filled_form))
       = []
   \<and> display_calls
        (trace (submitForApproval (server \<lparr>status = 200, json_result = Inr approved_reply\<rparr>) filled_form))
       = [approved_reply]
   \<and> ok \<lparr>status = 200, json_result = Inr approved_reply\<rparr>"
proof -
  have h1: "treatmentTypeInput_value filled_form \<noteq> []"
    and h2: "selectedFile filled_form = Some (File ''scan.pdf'' ''%PDF'')"
    by (simp_all add: filled_form_def)
  have good: "trace (submitForApproval (server \<lparr>status = 200, json_result = Inr approved_reply\<rparr>) filled_form)
      = [ReadFile (File ''scan.pdf'' ''%PDF''),
         Fetch API_ENDPOINT
           (JObj [(''document'', JStr ''JVBERg==''), (''insurance_type'', JStr ''bcbs''),
                  (''treatment_type'', JStr ''MRI Knee''), (''patient_name'', JStr ''Jane Doe'')]),
         DisplayResults approved_reply]"
    by (simp add: run_defs sample_defs)
  have run: "trace (submitForApproval (server \<lparr>status = 200, json_result = Inr bare_approval\<rparr>) filled_form)
      = [ReadFile (File ''scan.pdf'' ''%PDF''),
         Fetch API_ENDPOINT
           (JObj [(''document'', JStr ''JVBERg==''), (''insurance_type'', JStr ''bcbs''),
                  (''treatment_type'', JStr ''MRI Knee''), (''patient_name'', JStr ''Jane Doe'')]),
         DisplayResults bare_approval,
         ConsoleError (Engine TypeError),
         ShowResult [Lit ''Error: '', EngineMsg TypeError] ''error'']"
    by (simp add: run_defs sample_defs)
  from submit_shows_results_or_error [OF h1 h2] show ?thesis
    using h1 h2 run good by (simp add: ok_def)
qed

section \<open>Properties of the request body\<close>

text \<open>What the handler sends, if it sends anything: one request, to the endpoint.\<close>

lemma requests_sent_cases:
  "requests_sent (trace (submitForApproval env s)) = []
   \<or> (\<exists>f url.
        treatmentTypeInput_value s \<noteq> [] \<and> selectedFile s = Some f \<and>
        readAsDataURL env f = Inr url \<and>
        requests_sent (trace (submitForApproval env s)) =
          [(API_ENDPOINT,
            JSON_stringify (request_payload (nth_opt (split_on CHR '','' url) 1) s))])"
  by (auto simp: submitForApproval_def try_block_def Let_def readFileAsBase64_def
      request_payload_def split: sum.splits option.splits prod.splits)

text \<open>
  Claim C9. The body of a request carries the key \<^verbatim>\<open>patient_name\<close> exactly when the
  patient-name input is not empty, and then its value is the input's value.
\<close>

theorem patient_name_only_if_given:
  assumes "(url, body) \<in> set (requests_sent (trace (submitForApproval env s)))"
  shows "(''patient_name'' \<in> set (json_keys body)) = (patientNameInput_value s \<noteq> [])
         \<and> get_prop body ''patient_name''
             = Inr (if patientNameInput_value s \<noteq> [] then Some (JStr (patientNameInput_value s))
                    else None)"
proof -
  from assms requests_sent_cases [of env s] obtain d where
    "body = JSON_stringify (request_payload d s)"
    by auto
  then show ?thesis
    by (cases d) (simp_all add: JSON_stringify_def request_payload_def
        json_keys_def get_prop_def)
qed

theorem patient_name_only_if_given_witness:
  "(API_ENDPOINT,
    JObj [(''document'', JStr ''JVBERg==''), (''insurance_type'', JStr ''bcbs''),
          (''treatment_type'', JStr ''MRI Knee''), (''patient_name'', JStr ''Jane Doe'')])
     \<in> set (requests_sent
         (trace (submitForApproval (server \<lparr>status = 200, json_result = Inr approved_reply\<rparr>) filled_form)))
   \<and> get_prop (JObj [(''document'', JStr ''JVBERg==''), (''insurance_type'', JStr ''bcbs''),
          (''treatment_type'', JStr ''MRI Knee''), (''patient_name'', JStr ''Jane Doe'')])
        ''patient_name'' = Inr (Some (JStr ''Jane Doe''))
   \<and> (API_ENDPOINT,
    JObj [(''document'', JStr ''JVBERg==''), (''insurance_type'', JStr ''bcbs''),
          (''treatment_type'', JStr ''MRI Knee'')])
     \<in> set (requests_sent
         (trace (submitForApproval (server \<lparr>status = 200, json_result = Inr approved_reply\<rparr>) anonymous_form)))
   \<and> ''patient_name'' \<notin> set (json_keys (JObj [(''document'', JStr ''JVBERg==''),
          (''insurance_type'', JStr ''bcbs''), (''treatment_type'', JStr ''MRI Knee'')]))"
proof -
  have named: "(API_ENDPOINT,
    JObj [(''document'', JStr ''JVBERg==''), (''insurance_type'', JStr ''bcbs''),
          (''treatment_type'', JStr ''MRI Knee''), (''patient_name'', JStr ''Jane Doe'')])
     \<in> set (requests_sent
         (trace (submitForApproval (server \<lparr>status = 200, json_result = Inr approved_reply\<rparr>) filled_form)))"
    by (simp add: run_defs sample_defs)
  have anonymous: "(API_ENDPOINT,
    JObj [(''document'', JStr ''JVBERg==''), (''insurance_type'', JStr ''bcbs''),
          (''treatment_type'', JStr ''MRI Knee'')])
     \<in> set (requests_sent
         (trace (submitForApproval (server \<lparr>status = 200, json_result = Inr approved_reply\<rparr>) anonymous_form)))"
    by (simp add: run_defs sample_defs)
  from patient_name_only_if_given [OF named] patient_name_only_if_given [OF anonymous]
  show ?thesis
    using named anonymous by (simp add: sample_defs)
qed

text \<open>
  Claim C7. The selector offers exactly the nine values of \<^verbatim>\<open>index.html\<close>, and the
  \<^verbatim>\<open>insurance_type\<close> of every request sent is the value of the selected option, one
  of the nine.
\<close>

theorem insurance_type_is_offered:
  assumes "(url, body) \<in> set (requests_sent (trace (submitForApproval env s)))"
  shows "map option_value insuranceSelect_options =
           [''aetna'', ''bcbs'', ''cigna'', ''humana'', ''kaiser'', ''united'', ''medicare'',
            ''medicaid'', ''other'']
         \<and> get_prop body ''insurance_type''
             = Inr (Some (JStr (option_value (insuranceSelect_selected s))))
         \<and> option_value (insuranceSelect_selected s)
             \<in> set [''aetna'', ''bcbs'', ''cigna'', ''humana'', ''kaiser'', ''united'', ''medicare'',
                    ''medicaid'', ''other'']"
proof -
  from assms requests_sent_cases [of env s] obtain d where
    "body = JSON_stringify (request_payload d s)"
    by auto
  then have "get_prop body ''insurance_type''
      = Inr (Some (JStr (option_value (insuranceSelect_selected s))))"
    by (cases d) (simp_all add: JSON_stringify_def request_payload_def
        get_prop_def)
  moreover have "option_value (insuranceSelect_selected s)
      \<in> set [''aetna'', ''bcbs'', ''cigna'', ''humana'', ''kaiser'', ''united'', ''medicare'',
             ''medicaid'', ''other'']"
    by (cases "insuranceSelect_selected s") simp_all
  ultimately show ?thesis
    by (simp add: insuranceSelect_options_def)
qed

theorem insurance_type_is_offered_witness:
  "(API_ENDPOINT,
    JObj [(''document'', JStr ''JVBERg==''), (''insurance_type'', JStr ''bcbs''),
          (''treatment_type'', JStr ''MRI Knee''), (''patient_name'', JStr ''Jane Doe'')])
     \<in> set (requests_sent
         (trace (submitForApproval (server \<lparr>status = 200, json_result = Inr pending_reply\<rparr>) filled_form)))
   \<and> get_prop (JObj [(''document'', JStr ''JVBERg==''), (''insurance_type'', JStr ''bcbs''),
          (''treatment_type'', JStr ''MRI Knee''), (''patient_name'', JStr ''Jane Doe'')])
        ''insurance_type'' = Inr (Some (JStr ''bcbs''))"
proof -
  have sent: "(API_ENDPOINT,
    JObj [(''document'', JStr ''JVBERg==''), (''insurance_type'', JStr ''bcbs''),
          (''treatment_type'', JStr ''MRI Knee''), (''patient_name'', JStr ''Jane Doe'')])
     \<in> set (requests_sent
         (trace (submitForApproval (server \<lparr>status = 200, json_result = Inr pending_reply\<rparr>) filled_form)))"
    by (simp add: run_defs sample_defs)
  from insurance_type_is_offered [OF sent] show ?thesis
    using sent by (simp add: sample_defs)
qed

section \<open>Properties of the display\<close>

text \<open>
  Claim C8. When the reply's \<^verbatim>\<open>ai_analysis.decision\<close> is one of the strings APPROVED,
  DENIED, PENDING, \<^verbatim>\<open>displayResults\<close> takes the approved branch exactly when the
  string contains APPROVED, that is when it is APPROVED; DENIED and PENDING go through the
  denied branch. Both scripts.
\<close>

theorem displayResults_branch:
  assumes "get_prop data ''ai_analysis'' = Inr (Some a)"
    and "get_prop a ''decision'' = Inr (Some (JStr d))"
    and "d \<in> {''APPROVED'', ''DENIED'', ''PENDING''}"
  shows "str_includes d ''APPROVED'' = (d = ''APPROVED'')
    \<and> displayResults data s =
        (if str_includes d ''APPROVED''
         then render ''approved'' (approved_html ''Approved'' data a) (s\<lparr>resultDiv_display := ''block''\<rparr>)
         else render ''denied'' (denied_html ''Denied'' data a) (s\<lparr>resultDiv_display := ''block''\<rparr>))
    \<and> resultDiv_className (fst (displayResults data s)) =
        (if d = ''APPROVED'' then ''approved'' else ''denied'')
    \<and> displayResults_inline data s =
        (if str_includes d ''APPROVED''
         then render ''result approved'' (approved_html ''APPROVED'' data a)
                (s\<lparr>resultDiv_display := ''block''\<rparr>)
         else render ''result denied'' (denied_html ''DENIED'' data a)
                (s\<lparr>resultDiv_display := ''block''\<rparr>))
    \<and> resultDiv_className (fst (displayResults_inline data s)) =
        (if d = ''APPROVED'' then ''result approved'' else ''result denied'')"
proof -
  from assms(2) have obj: "truthy a"
    by (cases a) (simp_all add: get_prop_def)
  from assms(3) have inc: "str_includes d ''APPROVED'' = (d = ''APPROVED'')" and ne: "d \<noteq> []"
    by auto
  have cls: "resultDiv_className (fst (render c h t)) = c" for c h t
    by (cases h) (simp_all add: render_def)
  have app: "displayResults data s =
        (if str_includes d ''APPROVED''
         then render ''approved'' (approved_html ''Approved'' data a) (s\<lparr>resultDiv_display := ''block''\<rparr>)
         else render ''denied'' (denied_html ''Denied'' data a) (s\<lparr>resultDiv_display := ''block''\<rparr>))"
    using assms(1,2) obj ne
    by (simp add: displayResults_def analysis_decision_def truthy_opt_def get_prop_opt_def
        includes_call_def)
  have inl: "displayResults_inline data s =
        (if str_includes d ''APPROVED''
         then render ''result approved'' (approved_html ''APPROVED'' data a)
                (s\<lparr>resultDiv_display := ''block''\<rparr>)
         else render ''result denied'' (denied_html ''DENIED'' data a)
                (s\<lparr>resultDiv_display := ''block''\<rparr>))"
    using assms(1,2) obj ne
    by (simp add: displayResults_inline_def analysis_decision_def truthy_opt_def get_prop_opt_def
        includes_call_def)
  show ?thesis
    unfolding app inl using inc by (simp add: cls)
qed

theorem displayResults_branch_witness:
  "get_prop pending_reply ''ai_analysis''
     = Inr (Some (JObj [(''decision'', JStr ''PENDING''),
                    (''reason'', JStr ''manual review required''),
                    (''confidence_score'', JNum 0),
                    (''missing_documentation'', JArr []),
                    (''alternative_treatments'', JArr []),
                    (''appeal_guidance'', JStr [])]))
   \<and> ''PENDING'' \<in> {''APPROVED'', ''DENIED'', ''PENDING''}
   \<and> resultDiv_className (fst (displayResults pending_reply filled_form)) = ''denied''
   \<and> resultDiv_className (fst (displayResults_inline pending_reply filled_form)) = ''result denied''"
proof -
  have h1: "get_prop pending_reply ''ai_analysis''
     = Inr (Some (JObj [(''decision'', JStr ''PENDING''),
                    (''reason'', JStr ''manual review required''),
                    (''confidence_score'', JNum 0),
                    (''missing_documentation'', JArr []),
                    (''alternative_treatments'', JArr []),
                    (''appeal_guidance'', JStr [])]))"
    by (simp add: pending_reply_def get_prop_def)
  have h2: "get_prop (JObj [(''decision'', JStr ''PENDING''),
                    (''reason'', JStr ''manual review required''),
                    (''confidence_score'', JNum 0),
                    (''missing_documentation'', JArr []),
                    (''alternative_treatments'', JArr []),
                    (''appeal_guidance'', JStr [])]) ''decision'' = Inr (Some (JStr ''PENDING''))"
    by (simp add: get_prop_def)
  have h3: "''PENDING'' \<in> {''APPROVED'', ''DENIED'', ''PENDING''}"
    by simp
  from displayResults_branch [OF h1 h2 h3, of filled_form] show ?thesis
    using h1 by (simp add: render_def split: sum.splits)
qed

text \<open>
  Claim C5. As stated, the claim fails on the handler: the body it sends has the keys
  \<^verbatim>\<open>document\<close>, \<^verbatim>\<open>insurance_type\<close>, \<^verbatim>\<open>treatment_type\<close> and
  \<^verbatim>\<open>patient_name\<close>, so it carries no request identifier under either spelling, and it
  carries a document, which is no field of the Request.
\<close>

theorem request_fields_counterexample:
  "requests_sent
     (trace (submitForApproval (server \<lparr>status = 200, json_result = Inr approved_reply\<rparr>) filled_form))
     = [(API_ENDPOINT,
         JObj [(''document'', JStr ''JVBERg==''), (''insurance_type'', JStr ''bcbs''),
               (''treatment_type'', JStr ''MRI Knee''), (''patient_name'', JStr ''Jane Doe'')])]
   \<and> json_keys (JObj [(''document'', JStr ''JVBERg==''), (''insurance_type'', JStr ''bcbs''),
               (''treatment_type'', JStr ''MRI Knee''), (''patient_name'', JStr ''Jane Doe'')])
     = [''document'', ''insurance_type'', ''treatment_type'', ''patient_name'']
   \<and> ''requestId'' \<notin> set [''document'', ''insurance_type'', ''treatment_type'', ''patient_name'']
   \<and> ''request_id'' \<notin> set [''document'', ''insurance_type'', ''treatment_type'', ''patient_name'']
   \<and> ''treatmentDescription''
       \<notin> set [''document'', ''insurance_type'', ''treatment_type'', ''patient_name'']"
  by (simp add: run_defs sample_defs)

text \<open>
  \<^verbatim>\<open>url.split(',')[1]\<close>: nothing when the text has no comma, otherwise the part between
  its first comma and the next comma or the end.
\<close>

lemma split_on_nonempty: "split_on c u \<noteq> []"
  by (induction u) (auto split: list.splits)

lemma hd_split_on: "hd (split_on c u) = takeWhile (\<lambda>x. x \<noteq> c) u"
  by (induction u) (auto split: list.splits simp: split_on_nonempty)

lemma split_on_prefix: "c \<notin> set a \<Longrightarrow> split_on c (a @ c # r) = a # split_on c r"
  by (induction a) (auto split: list.splits)

lemma split_on_no_separator: "c \<notin> set u \<Longrightarrow> split_on c u = [u]"
  by (induction u) (auto split: list.splits)

lemma second_part:
  "nth_opt (split_on c u) 1 =
     (if c \<in> set u
      then Some (takeWhile (\<lambda>x. x \<noteq> c) (tl (dropWhile (\<lambda>x. x \<noteq> c) u)))
      else None)"
proof (cases "c \<in> set u")
  case False
  then show ?thesis
    by (simp add: split_on_no_separator nth_opt_def)
next
  case True
  define a where "a = takeWhile (\<lambda>x. x \<noteq> c) u"
  define r where "r = tl (dropWhile (\<lambda>x. x \<noteq> c) u)"
  from True have "dropWhile (\<lambda>x. x \<noteq> c) u \<noteq> []"
    by (simp add: dropWhile_eq_Nil_conv)
  moreover have "hd (dropWhile (\<lambda>x. x \<noteq> c) u) = c"
    using True hd_dropWhile [of "\<lambda>x. x \<noteq> c" u] calculation by auto
  ultimately have "dropWhile (\<lambda>x. x \<noteq> c) u = c # r"
    unfolding r_def by (cases "dropWhile (\<lambda>x. x \<noteq> c) u") auto
  then have u: "u = a @ c # r"
    unfolding a_def using takeWhile_dropWhile_id [of "\<lambda>x. x \<noteq> c" u] by simp
  have "c \<notin> set a"
    unfolding a_def by (auto dest: set_takeWhileD)
  then have "split_on c u = a # split_on c r"
    unfolding u by (rule split_on_prefix)
  moreover obtain h rest where "split_on c r = h # rest"
    using split_on_nonempty [of c r] by (cases "split_on c r") auto
  ultimately have "nth_opt (split_on c u) 1 = Some (hd (split_on c r))"
    by (simp add: nth_opt_def)
  with True show ?thesis
    by (simp add: hd_split_on r_def)
qed

text \<open>
  Claim C5, amended. Every body the form sends goes to the endpoint and is a JSON object
  with, in this order, the key \<^verbatim>\<open>document\<close> (the second part of the selected file's
  data URL split at commas, that is the text between its first comma and the next comma or
  the end; left out when the URL has no comma), \<^verbatim>\<open>insurance_type\<close> (the selected
  option's value), \<^verbatim>\<open>treatment_type\<close> (the value of the treatment input) and, only
  when the patient-name input is not empty, \<^verbatim>\<open>patient_name\<close> (its value); it has no
  other key.
\<close>

theorem request_body_fields:
  assumes "(url, body) \<in> set (requests_sent (trace (submitForApproval env s)))"
  shows "url = API_ENDPOINT
    \<and> (\<exists>f dataURL.
          selectedFile s = Some f \<and> readAsDataURL env f = Inr dataURL \<and>
          body = JObj ((case nth_opt (split_on CHR '','' dataURL) 1 of
                          None \<Rightarrow> []
                        | Some d \<Rightarrow> [(''document'', JStr d)])
                   @ [(''insurance_type'', JStr (option_value (insuranceSelect_selected s))),
                      (''treatment_type'', JStr (treatmentTypeInput_value s))]
                   @ (if patientNameInput_value s \<noteq> []
                      then [(''patient_name'', JStr (patientNameInput_value s))] else [])) \<and>
          nth_opt (split_on CHR '','' dataURL) 1 =
            (if CHR '','' \<in> set dataURL
             then Some (takeWhile (\<lambda>x. x \<noteq> CHR '','')
                          (tl (dropWhile (\<lambda>x. x \<noteq> CHR '','') dataURL)))
             else None))
    \<and> set (json_keys body)
        \<subseteq> {''document'', ''insurance_type'', ''treatment_type'', ''patient_name''}"
proof -
  from assms requests_sent_cases [of env s] obtain f dataURL where
    u: "url = API_ENDPOINT" and f: "selectedFile s = Some f"
    and r: "readAsDataURL env f = Inr dataURL"
    and b: "body = JSON_stringify (request_payload (nth_opt (split_on CHR '','' dataURL) 1) s)"
    by auto
  from b have shape: "body = JObj ((case nth_opt (split_on CHR '','' dataURL) 1 of
                          None \<Rightarrow> []
                        | Some d \<Rightarrow> [(''document'', JStr d)])
                   @ [(''insurance_type'', JStr (option_value (insuranceSelect_selected s))),
                      (''treatment_type'', JStr (treatmentTypeInput_value s))]
                   @ (if patientNameInput_value s \<noteq> []
                      then [(''patient_name'', JStr (patientNameInput_value s))] else []))"
    by (cases "nth_opt (split_on CHR '','' dataURL) 1")
       (simp_all add: JSON_stringify_def request_payload_def)
  from b have keys: "set (json_keys body)
        \<subseteq> {''document'', ''insurance_type'', ''treatment_type'', ''patient_name''}"
    by (cases "nth_opt (split_on CHR '','' dataURL) 1")
       (simp_all add: JSON_stringify_def request_payload_def json_keys_def)
  from u f r shape keys second_part [of "CHR '',''" dataURL] show ?thesis
    by blast
qed

theorem request_body_fields_witness:
  "(API_ENDPOINT,
    JObj [(''document'', JStr ''JVBERg==''), (''insurance_type'', JStr ''bcbs''),
          (''treatment_type'', JStr ''MRI Knee'')])
     \<in> set (requests_sent
         (trace (submitForApproval (server \<lparr>status = 200, json_result = Inr approved_reply\<rparr>) anonymous_form)))
   \<and> readAsDataURL (server \<lparr>status = 200, json_result = Inr approved_reply\<rparr>)
        (File ''scan.pdf'' ''%PDF'') = Inr ''data:application/pdf;base64,JVBERg==''
   \<and> nth_opt (split_on CHR '','' ''data:application/pdf;base64,JVBERg=='') 1 = Some ''JVBERg==''
   \<and> set (json_keys (JObj [(''document'', JStr ''JVBERg==''), (''insurance_type'', JStr ''bcbs''),
          (''treatment_type'', JStr ''MRI Knee'')]))
        \<subseteq> {''document'', ''insurance_type'', ''treatment_type'', ''patient_name''}"
proof -
  have sent: "(API_ENDPOINT,
    JObj [(''document'', JStr ''JVBERg==''), (''insurance_type'', JStr ''bcbs''),
          (''treatment_type'', JStr ''MRI Knee'')])
     \<in> set (requests_sent
         (trace (submitForApproval (server \<lparr>status = 200, json_result = Inr approved_reply\<rparr>) anonymous_form)))"
    by (simp add: run_defs sample_defs)
  have reader: "readAsDataURL (server \<lparr>status = 200, json_result = Inr approved_reply\<rparr>)
        (File ''scan.pdf'' ''%PDF'') = Inr ''data:application/pdf;base64,JVBERg=='' "
    by (simp add: server_def)
  have part: "nth_opt (split_on CHR '','' ''data:application/pdf;base64,JVBERg=='') 1
      = Some ''JVBERg=='' "
    by (simp add: nth_opt_def)
  have keys: "set (json_keys (JObj [(''document'', JStr ''JVBERg==''),
          (''insurance_type'', JStr ''bcbs''), (''treatment_type'', JStr ''MRI Knee'')]))
        \<subseteq> {''document'', ''insurance_type'', ''treatment_type'', ''patient_name''}"
    using request_body_fields [OF sent] by blast
  from sent reader part keys show ?thesis
    by (intro conjI)
qed

section \<open>Properties of the error path\<close>

text \<open>The run on a response that is not an ok one.\<close>

lemma non_ok_run:
  assumes "(url, body) \<in> set (requests_sent (trace (submitForApproval env s)))"
    and "fetch env url body = Inr resp"
    and "\<not> ok resp"
  shows "display_calls (trace (submitForApproval env s)) = []"
    and "shown (trace (submitForApproval env s))
         = [(Lit ''Error: ''
              # message (case json_result resp of Inl x \<Rightarrow> x | Inr data \<Rightarrow> request_failure data),
             ''error'')]"
    and "resultDiv_innerHTML (final (submitForApproval env s))
         = Lit ''Error: ''
             # message (case json_result resp of Inl x \<Rightarrow> x | Inr data \<Rightarrow> request_failure data)"
proof -
  from assms(1) requests_sent_cases [of env s] obtain f d where
    u: "url = API_ENDPOINT" and t: "treatmentTypeInput_value s \<noteq> []"
    and f: "selectedFile s = Some f" and r: "readFileAsBase64 env f = Inr d"
    and b: "body = JSON_stringify (request_payload d s)"
    by (auto simp: readFileAsBase64_def)
  have p: "request_payload d
      (s\<lparr>submitBtn_disabled := True, loadingSpinner_display := ''block'',
         resultDiv_display := ''none''\<rparr>) = request_payload d s"
    by (simp add: request_payload_def)
  from assms(2) u b have fe: "fetch env API_ENDPOINT (JSON_stringify (request_payload d s)) = Inr resp"
    by simp
  have tb: "try_block displayResults env f
       (s\<lparr>submitBtn_disabled := True, loadingSpinner_display := ''block'',
          resultDiv_display := ''none''\<rparr>)
     = (s\<lparr>submitBtn_disabled := True, loadingSpinner_display := ''block'',
          resultDiv_display := ''none''\<rparr>,
        [ReadFile f, Fetch API_ENDPOINT (JSON_stringify (request_payload d s))],
        Some (case json_result resp of Inl x \<Rightarrow> x | Inr data \<Rightarrow> request_failure data))"
    using r fe assms(3) by (simp add: try_block_def p split: sum.splits)
  show "display_calls (trace (submitForApproval env s)) = []"
    using t f by (simp add: submitForApproval_def tb Let_def)
  show "shown (trace (submitForApproval env s))
         = [(Lit ''Error: ''
              # message (case json_result resp of Inl x \<Rightarrow> x | Inr data \<Rightarrow> request_failure data),
             ''error'')]"
    using t f by (simp add: submitForApproval_def tb Let_def)
  show "resultDiv_innerHTML (final (submitForApproval env s))
         = Lit ''Error: ''
             # message (case json_result resp of Inl x \<Rightarrow> x | Inr data \<Rightarrow> request_failure data)"
    using t f by (simp add: submitForApproval_def tb Let_def showResult_def)
qed

text \<open>
  Claim C4. As stated, the claim fails on the handler: a response with status 500 whose
  body is the JSON value \<^verbatim>\<open>null\<close> has no \<^verbatim>\<open>error\<close> field, and the message shown
  is not the fixed text but the message of the TypeError that reading
  \<^verbatim>\<open>data.error\<close> throws.
\<close>

theorem null_error_body_counterexample:
  "\<not> ok \<lparr>status = 500, json_result = Inr JNull\<rparr>
   \<and> ''error'' \<notin> set (json_keys JNull)
   \<and> resultDiv_innerHTML
       (final (submitForApproval (server \<lparr>status = 500, json_result = Inr JNull\<rparr>) filled_form))
     = [Lit ''Error: '', EngineMsg TypeError]
   \<and> Lit ''Failed to process request''
       \<notin> set (resultDiv_innerHTML
           (final (submitForApproval (server \<lparr>status = 500, json_result = Inr JNull\<rparr>) filled_form)))"
  by (simp add: run_defs sample_defs)

text \<open>
  Claim C4, amended. For every response with a status outside 200..299,
  \<^verbatim>\<open>displayResults\<close> is not called and exactly one message is shown, the text
  \<^verbatim>\<open>Error: \<close> followed by the message of the exception caught. When the body is a JSON
  value other than \<^verbatim>\<open>null\<close> and its \<^verbatim>\<open>error\<close> field is truthy, that message is
  the text of the field if the field converts to a string (the field itself when it is a
  non-empty string), and the message of the TypeError of the conversion if it does not (an
  object that owns a key \<^verbatim>\<open>toString\<close>, or an array that holds one). When the field is
  absent or falsy, the message is the fixed text \<^verbatim>\<open>Failed to process request\<close>. When
  the body is \<^verbatim>\<open>null\<close> or is not JSON, it is the message of the exception that reading
  it raised.
\<close>

theorem non_ok_response_shows_error:
  assumes "(url, body) \<in> set (requests_sent (trace (submitForApproval env s)))"
    and "fetch env url body = Inr resp"
    and "\<not> ok resp"
  shows "display_calls (trace (submitForApproval env s)) = []
    \<and> (\<exists>e. shown (trace (submitForApproval env s)) = [(Lit ''Error: '' # message e, ''error'')]
           \<and> resultDiv_innerHTML (final (submitForApproval env s)) = Lit ''Error: '' # message e)
    \<and> (\<forall>data m. json_result resp = Inr data \<and> get_prop data ''error'' = Inr (Some (JStr m))
           \<and> m \<noteq> []
         \<longrightarrow> resultDiv_innerHTML (final (submitForApproval env s)) = [Lit ''Error: '', Lit m])
    \<and> (\<forall>data v. json_result resp = Inr data \<and> get_prop data ''error'' = Inr (Some v)
           \<and> truthy v
         \<longrightarrow> resultDiv_innerHTML (final (submitForApproval env s))
             = Lit ''Error: '' # (if to_string_throws v then [EngineMsg TypeError] else string_of v))
    \<and> (\<forall>data v. json_result resp = Inr data \<and> get_prop data ''error'' = Inr v
           \<and> \<not> truthy_opt v
         \<longrightarrow> resultDiv_innerHTML (final (submitForApproval env s))
             = [Lit ''Error: '', Lit ''Failed to process request''])
    \<and> (json_result resp = Inr JNull
         \<longrightarrow> resultDiv_innerHTML (final (submitForApproval env s))
             = [Lit ''Error: '', EngineMsg TypeError])
    \<and> (\<forall>e. json_result resp = Inl e
         \<longrightarrow> resultDiv_innerHTML (final (submitForApproval env s)) = Lit ''Error: '' # message e)"
proof -
  define e where "e = (case json_result resp of Inl x \<Rightarrow> x | Inr data \<Rightarrow> request_failure data)"
  from non_ok_run [OF assms] have
    calls: "display_calls (trace (submitForApproval env s)) = []"
    and msgs: "shown (trace (submitForApproval env s)) = [(Lit ''Error: '' # message e, ''error'')]"
    and html: "resultDiv_innerHTML (final (submitForApproval env s)) = Lit ''Error: '' # message e"
    by (simp_all add: e_def)
  have str: "message e = [Lit m]"
    if "json_result resp = Inr data" "get_prop data ''error'' = Inr (Some (JStr m))" "m \<noteq> []"
    for data m
    using that by (simp add: e_def request_failure_def truthy_opt_def interp_def to_string_def)
  have tru: "message e = (if to_string_throws v then [EngineMsg TypeError] else string_of v)"
    if "json_result resp = Inr data" "get_prop data ''error'' = Inr (Some v)" "truthy v"
    for data v
    using that by (simp add: e_def request_failure_def truthy_opt_def interp_def to_string_def)
  have fls: "message e = [Lit ''Failed to process request'']"
    if "json_result resp = Inr data" "get_prop data ''error'' = Inr v" "\<not> truthy_opt v"
    for data v
    using that by (simp add: e_def request_failure_def)
  have nul: "message e = [EngineMsg TypeError]" if "json_result resp = Inr JNull"
    using that by (simp add: e_def request_failure_def get_prop_def)
  have rej: "message e = message x" if "json_result resp = Inl x" for x
    using that by (simp add: e_def)
  from msgs html have one: "\<exists>e. shown (trace (submitForApproval env s))
        = [(Lit ''Error: '' # message e, ''error'')]
      \<and> resultDiv_innerHTML (final (submitForApproval env s)) = Lit ''Error: '' # message e"
    by blast
  have c3: "\<forall>data m. json_result resp = Inr data \<and> get_prop data ''error'' = Inr (Some (JStr m))
           \<and> m \<noteq> []
         \<longrightarrow> resultDiv_innerHTML (final (submitForApproval env s)) = [Lit ''Error: '', Lit m]"
    using str by (simp add: html)
  have c4: "\<forall>data v. json_result resp = Inr data \<and> get_prop data ''error'' = Inr (Some v)
           \<and> truthy v
         \<longrightarrow> resultDiv_innerHTML (final (submitForApproval env s))
             = Lit ''Error: '' # (if to_string_throws v then [EngineMsg TypeError] else string_of v)"
    using tru by (simp add: html)
  have c5: "\<forall>data v. json_result resp = Inr data \<and> get_prop data ''error'' = Inr v
           \<and> \<not> truthy_opt v
         \<longrightarrow> resultDiv_innerHTML (final (submitForApproval env s))
             = [Lit ''Error: '', Lit ''Failed to process request'']"
    using fls by (simp add: html)
  have c6: "json_result resp = Inr JNull
         \<longrightarrow> resultDiv_innerHTML (final (submitForApproval env s))
             = [Lit ''Error: '', EngineMsg TypeError]"
    using nul by (simp add: html)
  have c7: "\<forall>x. json_result resp = Inl x
         \<longrightarrow> resultDiv_innerHTML (final (submitForApproval env s)) = Lit ''Error: '' # message x"
    using rej by (simp add: html)
  from calls one c3 c4 c5 c6 c7 show ?thesis
    by (intro conjI)
qed

theorem non_ok_response_shows_error_witness:
  "(API_ENDPOINT,
    JObj [(''document'', JStr ''JVBERg==''), (''insurance_type'', JStr ''bcbs''),
          (''treatment_type'', JStr ''MRI Knee''), (''patient_name'', JStr ''Jane Doe'')])
     \<in> set (requests_sent
         (trace (submitForApproval
            (server \<lparr>status = 400,
                     json_result = Inr (JObj [(''error'', JStr ''Missing treatment'')])\<rparr>)
            filled_form)))
   \<and> \<not> ok \<lparr>status = 400, json_result = Inr (JObj [(''error'', JStr ''Missing treatment'')])\<rparr>
   \<and> resultDiv_innerHTML
       (final (submitForApproval
            (server \<lparr>status = 400,
                     json_result = Inr (JObj [(''error'', JStr ''Missing treatment'')])\<rparr>)
            filled_form))
     = [Lit ''Error: '', Lit ''Missing treatment'']
   \<and> display_calls
       (trace (submitForApproval
            (server \<lparr>status = 400,
                     json_result = Inr (JObj [(''error'', JStr ''Missing treatment'')])\<rparr>)
            filled_form))
     = []"
proof -
  have sent: "(API_ENDPOINT,
    JObj [(''document'', JStr ''JVBERg==''), (''insurance_type'', JStr ''bcbs''),
          (''treatment_type'', JStr ''MRI Knee''), (''patient_name'', JStr ''Jane Doe'')])
     \<in> set (requests_sent
         (trace (submitForApproval
            (server \<lparr>status = 400,
                     json_result = Inr (JObj [(''error'', JStr ''Missing treatment'')])\<rparr>)
            filled_form)))"
    by (simp add: run_defs sample_defs)
  have reply: "fetch (server \<lparr>status = 400,
                     json_result = Inr (JObj [(''error'', JStr ''Missing treatment'')])\<rparr>)
        API_ENDPOINT
        (JObj [(''document'', JStr ''JVBERg==''), (''insurance_type'', JStr ''bcbs''),
          (''treatment_type'', JStr ''MRI Knee''), (''patient_name'', JStr ''Jane Doe'')])
      = Inr \<lparr>status = 400, json_result = Inr (JObj [(''error'', JStr ''Missing treatment'')])\<rparr>"
    by (simp add: server_def)
  have bad: "\<not> ok \<lparr>status = 400, json_result = Inr (JObj [(''error'', JStr ''Missing treatment'')])\<rparr>"
    by (simp add: ok_def)
  have field: "get_prop (JObj [(''error'', JStr ''Missing treatment'')]) ''error''
      = Inr (Some (JStr ''Missing treatment''))"
    by (simp add: get_prop_def)
  from non_ok_response_shows_error [OF sent reply bad] show ?thesis
    using sent bad field by simp
qed

section \<open>Properties of the decision pipeline\<close>

lemma trim_all_space:
  assumes "\<forall>c \<in> set s. is_space c"
  shows "trim s = []"
proof -
  from assms have d: "dropWhile is_space s = []"
    by simp
  show ?thesis
    unfolding trim_def d by simp
qed

lemma first_match_empty:
  "\<forall>(c, kws) \<in> set table. [] \<notin> set kws \<Longrightarrow> first_match table [] = Other_treatment"
  by (induction table) auto

lemma first_match_range: "first_match table t \<in> insert Other_treatment (fst ` set table)"
proof (induction table)
  case Nil
  show ?case by simp
next
  case (Cons p table)
  obtain c kws where p: "p = (c, kws)" by (cases p)
  from Cons show ?case
    unfolding p by (cases "\<exists>k \<in> set kws. str_includes t k") auto
qed

text \<open>
  Claim C6. The categorizer is a function of the keyword table and the text alone, with a
  value for every text: a category of the closed enumeration, namely that of a table entry
  or \<open>other\<close>. With a table of non-empty keywords, the empty text and every text made of
  white space only (which normalises to the empty text) yield \<open>other\<close>.
\<close>

theorem categorize_total:
  assumes "\<forall>(c, kws) \<in> set table. [] \<notin> set kws"
  shows "categorize table t
           \<in> {Mri, Diabetes_medication, Physical_therapy, Surgery, Oncology, Mental_health,
              Other_treatment}
    \<and> categorize table t \<in> insert Other_treatment (fst ` set table)
    \<and> categorize table [] = Other_treatment
    \<and> (normalize t = [] \<longrightarrow> categorize table t = Other_treatment)
    \<and> ((\<forall>c \<in> set t. is_space c) \<longrightarrow> categorize table t = Other_treatment)"
proof -
  have enum: "categorize table t
           \<in> {Mri, Diabetes_medication, Physical_therapy, Surgery, Oncology, Mental_health,
              Other_treatment}"
    by (cases "categorize table t") simp_all
  have range: "categorize table t \<in> insert Other_treatment (fst ` set table)"
    unfolding categorize_def by (rule first_match_range)
  have empty: "categorize table [] = Other_treatment"
    using assms by (simp add: categorize_def normalize_def trim_def first_match_empty)
  have norm: "normalize t = [] \<longrightarrow> categorize table t = Other_treatment"
    using assms by (simp add: categorize_def first_match_empty)
  have blank: "(\<forall>c \<in> set t. is_space c) \<longrightarrow> categorize table t = Other_treatment"
    using assms by (simp add: categorize_def normalize_def trim_all_space first_match_empty)
  from enum range empty norm blank show ?thesis
    by (intro conjI)
qed

theorem categorize_total_witness:
  "[] \<notin> set [''chemotherapy'', ''oncology''] \<and> [] \<notin> set [''mri'']
   \<and> [] \<notin> set [''physical therapy'']
   \<and> is_space CHR '' '' \<and> is_space CHR 0x09
   \<and> categorize sample_keywords [CHR '' '', CHR 0x09, CHR '' ''] = Other_treatment
   \<and> categorize sample_keywords [] = Other_treatment"
proof -
  have h: "\<forall>(c, kws) \<in> set sample_keywords. [] \<notin> set kws"
    by (simp add: sample_keywords_def)
  have sp: "\<forall>c \<in> set [CHR '' '', CHR 0x09, CHR '' '']. is_space c"
    by (simp add: is_space_def)
  from categorize_total [OF h, of "[CHR '' '', CHR 0x09, CHR '' '']"] sp show ?thesis
    by (simp add: is_space_def)
qed

lemma locate_no_brace: "CHR ''{'' \<notin> set raw \<Longrightarrow> locate raw = None"
  by (induction raw) auto

text \<open>
  Claim C1. On every failure of the model path the extractor returns the fallback record:
  when the invocation fails (a timeout or a transport failure), when the reply holds no
  balanced JSON object (in particular no opening brace), when the located text does not
  deserialise or deserialises to something that is no object, when the object parsed has
  no \<^verbatim>\<open>decision\<close> field, and when its decision is any value other than the strings
  APPROVED, DENIED and PENDING (another string, or \<^verbatim>\<open>null\<close>, a boolean, a number, an
  array, an object). The fallback record is PENDING with confidence 0, a fixed non-empty
  reason and empty documentation, alternatives and appeal fields.
\<close>

theorem extract_falls_back:
  "(invoke p = Inl e \<longrightarrow> extract_decision invoke deserialize p = fallback)
   \<and> (invoke p = Inr raw \<and> locate raw = None
        \<longrightarrow> extract_decision invoke deserialize p = fallback)
   \<and> (invoke p = Inr raw \<and> CHR ''{'' \<notin> set raw
        \<longrightarrow> extract_decision invoke deserialize p = fallback)
   \<and> (invoke p = Inr raw \<and> locate raw = Some t \<and> deserialize t = None
        \<longrightarrow> extract_decision invoke deserialize p = fallback)
   \<and> (invoke p = Inr raw \<and> locate raw = Some t \<and> deserialize t = Some v
        \<and> (\<forall>kvs. v \<noteq> JObj kvs)
        \<longrightarrow> extract_decision invoke deserialize p = fallback)
   \<and> (invoke p = Inr raw \<and> locate raw = Some t \<and> deserialize t = Some (JObj kvs)
        \<and> map_of kvs ''decision'' = None
        \<longrightarrow> extract_decision invoke deserialize p = fallback)
   \<and> (invoke p = Inr raw \<and> locate raw = Some t \<and> deserialize t = Some (JObj kvs)
        \<and> map_of kvs ''decision'' = Some d
        \<and> d \<notin> {JStr ''APPROVED'', JStr ''DENIED'', JStr ''PENDING''}
        \<longrightarrow> extract_decision invoke deserialize p = fallback)
   \<and> decision fallback = PENDING
   \<and> confidenceScore fallback = 0
   \<and> reason fallback = ''automated analysis incomplete, manual review required''
   \<and> missingDocumentation fallback = []
   \<and> alternativeTreatments fallback = []
   \<and> appealGuidance fallback = []"
proof -
  have no_object: "validate v = None" if "\<forall>kvs. v \<noteq> JObj kvs"
    using that by (cases v) (simp_all add: validate_def)
  have no_decision: "validate (JObj kvs) = None" if "map_of kvs ''decision'' = None"
    using that by (simp add: validate_def decision_of_def)
  have other: "decision_of (Some d) = None"
    if "d \<notin> {JStr ''APPROVED'', JStr ''DENIED'', JStr ''PENDING''}"
    using that by (cases d) (simp_all add: decision_of_def)
  have bad_decision: "validate (JObj kvs) = None"
    if "map_of kvs ''decision'' = Some d"
      and "d \<notin> {JStr ''APPROVED'', JStr ''DENIED'', JStr ''PENDING''}"
    using that other by (simp add: validate_def)
  show ?thesis
    using no_object no_decision bad_decision
    by (simp add: extract_decision_def fallback_def locate_no_brace)
qed

theorem extract_falls_back_witness:
  "extract_decision (\<lambda>p. Inl Timeout) sample_deserialize ''prompt'' = fallback
   \<and> locate ''no object here'' = None
   \<and> extract_decision (\<lambda>p. Inr ''no object here'') sample_deserialize ''prompt'' = fallback
   \<and> locate (''Sure: '' @ reasonless_text) = Some reasonless_text
   \<and> extract_decision (\<lambda>p. Inr (''Sure: '' @ reasonless_text)) sample_deserialize ''prompt''
       = fallback
   \<and> locate (maybe_text @ '' done'') = Some maybe_text
   \<and> JStr ''MAYBE'' \<notin> {JStr ''APPROVED'', JStr ''DENIED'', JStr ''PENDING''}
   \<and> extract_decision (\<lambda>p. Inr (maybe_text @ '' done'')) sample_deserialize ''prompt''
       = fallback
   \<and> JBool True \<notin> {JStr ''APPROVED'', JStr ''DENIED'', JStr ''PENDING''}
   \<and> extract_decision (\<lambda>p. Inr (maybe_text @ '' done''))
        (\<lambda>t. Some (JObj [(''decision'', JBool True)])) ''prompt''
       = fallback
   \<and> decision (extract_decision (\<lambda>p. Inr (maybe_text @ '' done'')) sample_deserialize ''prompt'')
       = PENDING
   \<and> confidenceScore
        (extract_decision (\<lambda>p. Inr (maybe_text @ '' done'')) sample_deserialize ''prompt'')
       = 0"
proof -
  have l0: "locate ''no object here'' = None"
    by simp
  have l1: "locate (''Sure: '' @ reasonless_text) = Some reasonless_text"
    by (simp add: reasonless_text_def dq_def)
  have l2: "locate (maybe_text @ '' done'') = Some maybe_text"
    by (simp add: maybe_text_def dq_def)
  have d1: "sample_deserialize reasonless_text = Some (JObj [(''reason'', JStr ''ok'')])"
    by (simp add: sample_deserialize_def reasonless_text_def maybe_text_def dq_def)
  have d2: "sample_deserialize maybe_text = Some (JObj [(''decision'', JStr ''MAYBE'')])"
    by (simp add: sample_deserialize_def)
  have a: "extract_decision (\<lambda>p. Inl Timeout) sample_deserialize ''prompt'' = fallback"
    using extract_falls_back
      [of "\<lambda>p. Inl Timeout" "''prompt''" Timeout sample_deserialize "[]" "[]" JNull "[]" JNull]
    by simp
  have b: "extract_decision (\<lambda>p. Inr ''no object here'') sample_deserialize ''prompt'' = fallback"
    using extract_falls_back
      [of "\<lambda>p. Inr ''no object here''" "''prompt''" Timeout sample_deserialize
          "''no object here''" "[]" JNull "[]" JNull] l0
    by simp
  have c: "extract_decision (\<lambda>p. Inr (''Sure: '' @ reasonless_text)) sample_deserialize ''prompt''
       = fallback"
    using extract_falls_back
      [of "\<lambda>p. Inr (''Sure: '' @ reasonless_text)" "''prompt''" Timeout sample_deserialize
          "''Sure: '' @ reasonless_text" reasonless_text JNull "[(''reason'', JStr ''ok'')]" JNull]
      l1 d1
    by simp
  have d: "extract_decision (\<lambda>p. Inr (maybe_text @ '' done'')) sample_deserialize ''prompt''
       = fallback"
    using extract_falls_back
      [of "\<lambda>p. Inr (maybe_text @ '' done'')" "''prompt''" Timeout sample_deserialize
          "maybe_text @ '' done''" maybe_text JNull "[(''decision'', JStr ''MAYBE'')]"
          "JStr ''MAYBE''"] l2 d2
    by simp
  have e: "extract_decision (\<lambda>p. Inr (maybe_text @ '' done''))
        (\<lambda>t. Some (JObj [(''decision'', JBool True)])) ''prompt'' = fallback"
    using extract_falls_back
      [of "\<lambda>p. Inr (maybe_text @ '' done'')" "''prompt''" Timeout
          "\<lambda>t. Some (JObj [(''decision'', JBool True)])"
          "maybe_text @ '' done''" maybe_text JNull "[(''decision'', JBool True)]"
          "JBool True"] l2
    by simp
  from a b c d e l0 l1 l2 show ?thesis
    by (simp add: fallback_def)
qed

end
